theory Spec2Isabelle
  imports Main "HOL-Library.Word" "HOL-Library.Sublist"
begin

section \<open>Values of the backend\<close>

text \<open>
  The backend is one Express application (\<^verbatim>\<open>backend/app.js\<close>). JavaScript strings are
  sequences of UTF-16 code units, and the regular expression of the filename sanitizer has
  no \<^verbatim>\<open>u\<close> flag, so it works on code units: a string is a list of 16-bit words. Uploaded
  files are byte buffers.
\<close>

type_synonym code_unit = "16 word"
type_synonym jsstring = "code_unit list"
type_synonym buffer = "8 word list"

definition js :: "string \<Rightarrow> jsstring" where
  "js s = map (\<lambda>c. of_nat (of_char c)) s"

text \<open>
  A field of \<^verbatim>\<open>req.body\<close> as multer leaves it: absent (\<^verbatim>\<open>undefined\<close>), one string, or
  an array or object (a field sent twice, or with a bracketed name), which has no method
  \<^verbatim>\<open>replace\<close> that could be called.
\<close>

datatype jsval = Undefined | JStr jsstring | JOther

datatype js_error =
    MulterError jsstring jsstring   \<comment> \<open>\<^verbatim>\<open>code\<close>, \<^verbatim>\<open>message\<close>\<close>
  | Error jsstring                  \<comment> \<open>\<^verbatim>\<open>message\<close>\<close>

record upload_file =
  mimetype :: jsstring
  buffer :: buffer

record request =
  body_compressionLevel :: jsval
  body_filename :: jsval
  images :: "upload_file list"       \<comment> \<open>the file parts of the form, in submission order\<close>
  header_user_id :: "jsstring option"

record conversion =
  conv_filename :: jsstring
  conv_file_count :: nat
  conv_compression_level :: jsval
  conv_user_id :: jsstring
  conv_created_at :: jsstring

text \<open>
  What awaiting a Supabase query gives: the promise rejects, or it resolves to an object
  \<^verbatim>\<open>{data, error}\<close> whose two fields may be null.
\<close>

datatype 'a query_result =
    Rejected jsstring
  | Resolved "'a option" "jsstring option"

record pdf_image =
  img_data :: buffer
  img_width :: nat
  img_height :: nat

record pdf_page =
  page_size :: "nat \<times> nat"
  page_images :: "(pdf_image \<times> nat \<times> nat) list"   \<comment> \<open>image, x, y\<close>

datatype json =
    ErrorObj jsstring "jsstring option"   \<comment> \<open>\<^verbatim>\<open>{error, message?}\<close>\<close>
  | RowArray "conversion list"

text \<open>
  What the caller has received when the request is over: a JSON document, or the pages of
  the PDF stream written so far together with whether the document was finalized
  (\<^verbatim>\<open>doc.end()\<close>).
\<close>

datatype payload = NoPayload | Json json | Pdf "pdf_page list" bool

record response =
  statusCode :: nat
  contentType :: "jsstring option"
  contentDisposition :: "jsstring option"
  payload :: payload

text \<open>
  The collaborators the code calls but does not contain: the image encoder
  (\<^verbatim>\<open>sharp(buffer).jpeg({quality, progressive}).toBuffer()\<close>), the image parser of the PDF
  writer (\<^verbatim>\<open>doc.openImage\<close>), the audit store, the clock, and the event loop, which
  decides whether the output piped by \<^verbatim>\<open>doc.pipe(res)\<close> has reached the response (and so
  sent its headers) while the handler awaits the compression of file number \<open>i\<close>.
  The flag \<^verbatim>\<open>supabaseConnected\<close> is module state set once at start-up. The installed
  version of multer is not part of the source, and versions differ on a file part of
  exactly the size limit: \<open>refuses_at_limit\<close> says whether this one refuses it.
\<close>

record env =
  sharp_jpeg :: "buffer \<Rightarrow> nat \<Rightarrow> bool \<Rightarrow> jsstring + buffer"
  openImage :: "buffer \<Rightarrow> jsstring + pdf_image"
  drained :: "nat \<Rightarrow> bool"
  supabaseConnected :: bool
  store_insert :: "conversion \<Rightarrow> unit query_result"
  store_select :: "conversion list query_result"
  now :: jsstring
  refuses_at_limit :: bool

section \<open>Upload middleware\<close>

definition fileSize_limit :: nat where
  "fileSize_limit = 10 * 1024 * 1024"

definition files_limit :: nat where
  "files_limit = 20"

definition fileFilter :: "upload_file \<Rightarrow> js_error option" where
  "fileFilter file =
     (if prefix (js ''image/'') (mimetype file) then None
      else Some (Error (js ''Only image files are allowed'')))"

text \<open>
  \<^verbatim>\<open>upload.array("images")\<close> with the limits and the filter of the source: multer takes the
  file parts in order, refuses the part after the twentieth, asks the filter before it
  reads a part, and refuses a part longer than the size limit (and, depending on its
  version, a part of exactly that size). The first error ends the upload and is passed to
  the error-handling middleware.
\<close>

fun upload_array :: "env \<Rightarrow> nat \<Rightarrow> upload_file list \<Rightarrow> js_error + upload_file list" where
  "upload_array env n [] = Inr []"
| "upload_array env n (file # rest) =
     (if files_limit \<le> n then Inl (MulterError (js ''LIMIT_FILE_COUNT'') (js ''Too many files''))
      else case fileFilter file of
        Some err \<Rightarrow> Inl err
      | None \<Rightarrow>
          if fileSize_limit < length (buffer file) \<or>
             (refuses_at_limit env \<and> length (buffer file) = fileSize_limit)
          then Inl (MulterError (js ''LIMIT_FILE_SIZE'') (js ''File too large''))
          else (case upload_array env (Suc n) rest of
                  Inl err \<Rightarrow> Inl err
                | Inr accepted \<Rightarrow> Inr (file # accepted)))"

section \<open>Responses\<close>

definition fresh_res :: response where
  "fresh_res = \<lparr>statusCode = 200, contentType = None, contentDisposition = None,
                payload = NoPayload\<rparr>"

text \<open>
  \<^verbatim>\<open>res.status(code).json(body)\<close>. Express sets the JSON content type only when the
  response has none; a type set before is kept, and sending the string body adds the
  charset parameter to it.
\<close>

definition res_json :: "nat \<Rightarrow> json \<Rightarrow> response \<Rightarrow> response" where
  "res_json code body res =
     res\<lparr>statusCode := code,
         contentType :=
           (case contentType res of
              None \<Rightarrow> Some (js ''application/json; charset=utf-8'')
            | Some type \<Rightarrow> Some (type @ js ''; charset=utf-8'')),
         payload := Json body\<rparr>"

definition error_middleware :: "js_error \<Rightarrow> response" where
  "error_middleware error =
     (case error of
        MulterError code message \<Rightarrow>
          if code = js ''LIMIT_FILE_SIZE''
          then res_json 400 (ErrorObj (js ''File too large. Maximum size is 10MB.'') None) fresh_res
          else if code = js ''LIMIT_FILE_COUNT''
          then res_json 400 (ErrorObj (js ''Too many files. Maximum is 20 files.'') None) fresh_res
          else res_json 500 (ErrorObj message None) fresh_res
      | Error message \<Rightarrow> res_json 500 (ErrorObj message None) fresh_res)"

section \<open>Compression\<close>

definition quality_of :: "jsval \<Rightarrow> nat" where
  "quality_of compressionLevel =
     (if compressionLevel = JStr (js ''ultra'') then 30
      else if compressionLevel = JStr (js ''compressed'') then 60
      else if compressionLevel = JStr (js ''normal'') then 90
      else 90)"

text \<open>
  \<^verbatim>\<open>compressImage\<close>: the whole encoder call is inside \<^verbatim>\<open>try\<close>; the \<^verbatim>\<open>catch\<close> logs and
  returns the buffer it was given.
\<close>

definition compressImage :: "env \<Rightarrow> buffer \<Rightarrow> jsval \<Rightarrow> js_error + buffer" where
  "compressImage env buf compressionLevel =
     (case sharp_jpeg env buf (quality_of compressionLevel) True of
        Inr out \<Rightarrow> Inr out
      | Inl err \<Rightarrow> Inr buf)"

section \<open>Filename sanitizer\<close>

text \<open>
  The class \<^verbatim>\<open>[a-z0-9_-]\<close> under the flag \<^verbatim>\<open>i\<close>. Without the flag \<^verbatim>\<open>u\<close>, case folding
  never maps a code unit from 128 on to one below 128, so the class holds the ASCII
  letters of both cases, the digits, the underscore and the hyphen, and nothing else.
\<close>

definition in_class :: "code_unit \<Rightarrow> bool" where
  "in_class c \<longleftrightarrow>
     (0x61 \<le> c \<and> c \<le> 0x7A) \<or> (0x41 \<le> c \<and> c \<le> 0x5A) \<or>
     (0x30 \<le> c \<and> c \<le> 0x39) \<or> c = 0x5F \<or> c = 0x2D"

definition sanitize :: "jsstring \<Rightarrow> jsstring" where
  "sanitize filename = map (\<lambda>c. if in_class c then c else 0x5F) filename"

definition sanitizedFilename :: "jsstring \<Rightarrow> jsstring" where
  "sanitizedFilename filename = sanitize filename @ js ''.pdf''"

definition disposition :: "jsstring \<Rightarrow> jsstring" where
  "disposition name = js ''attachment; filename='' @ [0x22] @ name @ [0x22]"

section \<open>The routes\<close>

text \<open>A destructuring default replaces \<^verbatim>\<open>undefined\<close> only.\<close>

definition default_to :: "jsval \<Rightarrow> jsstring \<Rightarrow> jsval" where
  "default_to v d = (case v of Undefined \<Rightarrow> JStr d | _ \<Rightarrow> v)"

definition page_of :: "pdf_image \<Rightarrow> pdf_page" where
  "page_of img = \<lparr>page_size = (img_width img, img_height img), page_images = [(img, 0, 0)]\<rparr>"

text \<open>
  The loop over \<^verbatim>\<open>req.files\<close>. The state is the pages added to the document so far and
  whether the response headers have been sent. An exception leaves the loop with its
  message and the state at that moment.
\<close>

fun process_files ::
  "env \<Rightarrow> jsval \<Rightarrow> nat \<Rightarrow> upload_file list \<Rightarrow> pdf_page list \<times> bool \<Rightarrow>
   (jsstring \<times> pdf_page list \<times> bool) + (pdf_page list \<times> bool)" where
  "process_files env compressionLevel i [] st = Inr st"
| "process_files env compressionLevel i (file # rest) (pages, sent) =
     (let sent' = (sent \<or> drained env i) in
      case compressImage env (buffer file) compressionLevel of
        Inl (MulterError code message) \<Rightarrow> Inl (message, pages, sent')
      | Inl (Error message) \<Rightarrow> Inl (message, pages, sent')
      | Inr compressedBuffer \<Rightarrow>
          (case openImage env compressedBuffer of
             Inl message \<Rightarrow> Inl (message, pages, sent')
           | Inr img \<Rightarrow>
               process_files env compressionLevel (Suc i) rest (pages @ [page_of img], sent')))"

definition user_id_of :: "jsstring option \<Rightarrow> jsstring" where
  "user_id_of h = (case h of None \<Rightarrow> js ''anonymous'' | Some v \<Rightarrow> if v = [] then js ''anonymous'' else v)"

text \<open>
  The handler of \<^verbatim>\<open>POST /convert\<close>, after the upload middleware. It gives the response
  and the record handed to the audit store, if an insert was attempted. The PDF writer
  writes a page object out when the next page is added or the document is ended, so when
  an exception leaves the loop the page added last has not been written: the caller holds
  the pages before it.
\<close>

definition convert_handler :: "env \<Rightarrow> request \<Rightarrow> upload_file list \<Rightarrow> response \<times> conversion option" where
  "convert_handler env req files =
     (let compressionLevel = default_to (body_compressionLevel req) (js ''normal'');
          filename = default_to (body_filename req) (js ''converted'')
      in if files = []
         then (res_json 400 (ErrorObj (js ''No images provided'') None) fresh_res, None)
         else case filename of
           JStr name \<Rightarrow>
             (let res = fresh_res\<lparr>contentType := Some (js ''application/pdf''),
                                  contentDisposition := Some (disposition (sanitizedFilename name))\<rparr>
              in case process_files env compressionLevel 0 files ([], False) of
                   Inr (pages, sent) \<Rightarrow>
                     (let finished = res\<lparr>payload := Pdf pages True\<rparr>;
                          entry = \<lparr>conv_filename = sanitizedFilename name,
                                   conv_file_count = length files,
                                   conv_compression_level = compressionLevel,
                                   conv_user_id = user_id_of (header_user_id req),
                                   conv_created_at = now env\<rparr>
                      in if supabaseConnected env
                         then (case store_insert env entry of
                                 Rejected dbError \<Rightarrow> (finished, Some entry)
                               | Resolved d e \<Rightarrow> (finished, Some entry))
                         else (finished, None))
                 | Inl (message, pages, sent) \<Rightarrow>
                     if sent then (res\<lparr>payload := Pdf (butlast pages) False\<rparr>, None)
                     else (res_json 500 (ErrorObj (js ''Conversion failed'') (Some message)) res, None))
         | _ \<Rightarrow>
             (res_json 500 (ErrorObj (js ''Conversion failed'')
                              (Some (js ''filename.replace is not a function''))) fresh_res, None))"

definition post_convert :: "env \<Rightarrow> request \<Rightarrow> response \<times> conversion option" where
  "post_convert env req =
     (case upload_array env 0 (images req) of
        Inl err \<Rightarrow> (error_middleware err, None)
      | Inr files \<Rightarrow> convert_handler env req files)"

definition get_conversions :: "env \<Rightarrow> response" where
  "get_conversions env =
     (if \<not> supabaseConnected env then res_json 200 (RowArray []) fresh_res
      else case store_select env of
        Rejected err \<Rightarrow>
          res_json 500 (ErrorObj (js ''Failed to fetch conversions'') None) fresh_res
      | Resolved data error \<Rightarrow>
          (case error of
             Some err \<Rightarrow>
               res_json 500 (ErrorObj (js ''Failed to fetch conversions'') None) fresh_res
           | None \<Rightarrow>
               res_json 200 (RowArray (case data of None \<Rightarrow> [] | Some rows \<Rightarrow> rows)) fresh_res))"

section \<open>Test doubles and sample requests\<close>

text \<open>
  Stand-ins for the collaborators, used where a theorem is run on a concrete request. The
  encoder accepts a buffer that starts with the JPEG marker and has data after its four
  header bytes, and re-encodes it to the header and one byte holding the quality; it
  rejects anything else, as the real encoder rejects truncated or foreign input. The PDF
  writer reads the JPEG marker and the two dimension bytes only, and rejects a buffer
  without the marker. The store of \<open>demo_env\<close> is configured but answers every query
  with an error; the piped output reaches the response at every await.
\<close>

definition demo_sharp :: "buffer \<Rightarrow> nat \<Rightarrow> bool \<Rightarrow> jsstring + buffer" where
  "demo_sharp buf quality progressive =
     (case buf of
        a # b # w # h # rest \<Rightarrow>
          if a = 0xFF \<and> b = 0xD8 \<and> rest \<noteq> []
          then Inr [a, b, w, h, of_nat quality]
          else Inl (js ''Input buffer contains unsupported image format'')
      | _ \<Rightarrow> Inl (js ''Input buffer contains unsupported image format''))"

definition demo_openImage :: "buffer \<Rightarrow> jsstring + pdf_image" where
  "demo_openImage buf =
     (case buf of
        a # b # w # h # rest \<Rightarrow>
          if a = 0xFF \<and> b = 0xD8
          then Inr \<lparr>img_data = buf, img_width = unat w, img_height = unat h\<rparr>
          else Inl (js ''Unknown image format.'')
      | _ \<Rightarrow> Inl (js ''Unknown image format.''))"

definition demo_env :: env where
  "demo_env = \<lparr>sharp_jpeg = demo_sharp, openImage = demo_openImage, drained = (\<lambda>i. True),
       supabaseConnected = True,
       store_insert = (\<lambda>entry. Resolved None (Some (js ''fetch failed''))),
       store_select = Resolved None (Some (js ''fetch failed'')),
       now = js ''2024-01-01T00:00:00.000Z'', refuses_at_limit = True\<rparr>"

definition jpeg_a :: upload_file where
  "jpeg_a = \<lparr>mimetype = js ''image/jpeg'', buffer = [0xFF, 0xD8, 4, 3, 7]\<rparr>"

definition jpeg_b :: upload_file where
  "jpeg_b = \<lparr>mimetype = js ''image/jpeg'', buffer = [0xFF, 0xD8, 2, 5, 9]\<rparr>"

definition jpeg_truncated :: upload_file where
  "jpeg_truncated = \<lparr>mimetype = js ''image/jpeg'', buffer = [0xFF, 0xD8, 6, 8]\<rparr>"

definition png_garbage :: upload_file where
  "png_garbage = \<lparr>mimetype = js ''image/png'', buffer = [0x68, 0x69]\<rparr>"

definition text_file :: upload_file where
  "text_file = \<lparr>mimetype = js ''text/plain'', buffer = [0x68, 0x69]\<rparr>"

definition form :: "jsval \<Rightarrow> jsval \<Rightarrow> upload_file list \<Rightarrow> request" where
  "form level name files =
     \<lparr>body_compressionLevel = level, body_filename = name, images = files,
      header_user_id = None\<rparr>"

section \<open>Auxiliary facts\<close>

lemmas demo_defs = demo_env_def demo_sharp_def demo_openImage_def jpeg_a_def jpeg_b_def
  png_garbage_def form_def

lemmas route_defs = post_convert_def convert_handler_def default_to_def res_json_def
  fresh_res_def compressImage_def quality_of_def fileFilter_def files_limit_def
  fileSize_limit_def page_of_def sanitizedFilename_def disposition_def error_middleware_def

lemma in_class_underscore: "in_class 0x5F"
  by (simp add: in_class_def)

lemma upload_array_same: "upload_array env n fs = Inr accepted \<Longrightarrow> accepted = fs"
  by (induction fs arbitrary: n accepted) (auto split: if_splits option.splits sum.splits)


lemma upload_array_cong:
  "refuses_at_limit env' = refuses_at_limit env \<Longrightarrow> upload_array env' n fs = upload_array env n fs"
  by (induction fs arbitrary: n) (auto split: option.splits sum.splits)

lemma compressImage_Inr: "\<exists>out. compressImage env buf level = Inr out"
  by (simp add: compressImage_def split: sum.splits)

lemma process_files_length:
  "process_files env level i fs (pages, sent) = Inr (pages', sent') \<Longrightarrow>
   length pages' = length pages + length fs"
proof (induction fs arbitrary: i pages sent)
  case Nil
  then show ?case by simp
next
  case (Cons f fs)
  from compressImage_Inr obtain out where c: "compressImage env (buffer f) level = Inr out"
    by blast
  show ?case
  proof (cases "openImage env out")
    case (Inl msg)
    with Cons.prems c show ?thesis by (simp add: Let_def)
  next
    case (Inr img)
    with Cons.prems c
    have "process_files env level (Suc i) fs (pages @ [page_of img], sent \<or> drained env i)
            = Inr (pages', sent')"
      by (simp add: Let_def)
    from Cons.IH [OF this] show ?thesis by simp
  qed
qed

lemma process_files_partial:
  "process_files env level i fs (pages, sent) = Inl (msg, pages', sent') \<Longrightarrow>
   length pages' < length pages + length fs \<and> (sent' \<longrightarrow> sent \<or> (\<exists>j. drained env j))"
proof (induction fs arbitrary: i pages sent)
  case Nil
  then show ?case by simp
next
  case (Cons f fs)
  from compressImage_Inr obtain out where c: "compressImage env (buffer f) level = Inr out"
    by blast
  show ?case
  proof (cases "openImage env out")
    case (Inl m)
    with Cons.prems c show ?thesis by (auto simp: Let_def)
  next
    case (Inr img)
    with Cons.prems c
    have "process_files env level (Suc i) fs (pages @ [page_of img], sent \<or> drained env i)
            = Inl (msg, pages', sent')"
      by (simp add: Let_def)
    from Cons.IH [OF this] show ?thesis by auto
  qed
qed

lemma process_files_pages:
  "\<forall>f \<in> set fs. \<exists>img. openImage env (projr (compressImage env (buffer f) level)) = Inr img \<Longrightarrow>
   \<exists>sent'. process_files env level i fs (pages, sent) =
     Inr (pages @ map (\<lambda>f. page_of (projr (openImage env (projr (compressImage env (buffer f) level))))) fs,
          sent')"
proof (induction fs arbitrary: i pages sent)
  case Nil
  then show ?case by simp
next
  case (Cons f fs)
  from compressImage_Inr obtain out where c: "compressImage env (buffer f) level = Inr out"
    by blast
  from Cons.prems c obtain img where o: "openImage env out = Inr img"
    by auto
  from Cons.prems have "\<forall>f \<in> set fs. \<exists>img. openImage env (projr (compressImage env (buffer f) level)) = Inr img"
    by simp
  from Cons.IH [OF this, of "Suc i" "pages @ [page_of img]" "sent \<or> drained env i"]
  show ?case using c o by (simp add: Let_def)
qed

lemma process_files_cong:
  assumes "sharp_jpeg env' = sharp_jpeg env" and "openImage env' = openImage env"
    and "drained env' = drained env"
  shows "process_files env' level i fs st = process_files env level i fs st"
proof (induction fs arbitrary: i st)
  case Nil
  show ?case by simp
next
  case (Cons f fs)
  obtain pages sent where st: "st = (pages, sent)"
    by (cases st)
  show ?case
    unfolding st using assms Cons.IH
    by (simp add: compressImage_def Let_def split: sum.splits js_error.splits)
qed

lemma convert_all_open:
  assumes up: "upload_array env 0 (images req) = Inr files" and ne: "files \<noteq> []"
    and name: "body_filename req \<noteq> JOther"
    and lvl: "level = default_to (body_compressionLevel req) (js ''normal'')"
    and opens: "\<forall>f \<in> set files. \<exists>img. openImage env (projr (compressImage env (buffer f) level)) = Inr img"
  shows "payload (fst (post_convert env req)) =
           Pdf (map (\<lambda>f. page_of (projr (openImage env (projr (compressImage env (buffer f) level))))) files) True \<and>
         statusCode (fst (post_convert env req)) = 200 \<and>
         contentType (fst (post_convert env req)) = Some (js ''application/pdf'')"
proof -
  from process_files_pages [OF opens, of 0 "[]" False]
  obtain sent' where
    "process_files env level 0 files ([], False) =
       Inr (map (\<lambda>f. page_of (projr (openImage env (projr (compressImage env (buffer f) level))))) files, sent')"
    by auto
  with up ne name lvl show ?thesis
    by (cases "body_filename req")
       (simp_all add: post_convert_def convert_handler_def default_to_def fresh_res_def Let_def
          split: query_result.splits)
qed

lemma fallback_pages:
  assumes up: "upload_array env 0 (images req) = Inr files"
    and name: "body_filename req \<noteq> JOther"
    and lvl: "level = default_to (body_compressionLevel req) (js ''normal'')"
    and k: "k < length files"
    and fails: "sharp_jpeg env (buffer (files ! k)) (quality_of level) True = Inl err"
    and opens: "\<forall>j<length files. \<exists>out im.
                  compressImage env (buffer (files ! j)) level = Inr out \<and> openImage env out = Inr im"
  shows "compressImage env (buffer (files ! k)) level = Inr (buffer (files ! k)) \<and>
         (\<exists>pages. payload (fst (post_convert env req)) = Pdf pages True \<and>
            statusCode (fst (post_convert env req)) = 200 \<and>
            length pages = length files \<and>
            (\<exists>im. openImage env (buffer (files ! k)) = Inr im \<and> pages ! k = page_of im) \<and>
            (\<forall>j<length files. \<forall>out.
               sharp_jpeg env (buffer (files ! j)) (quality_of level) True = Inr out \<longrightarrow>
               compressImage env (buffer (files ! j)) level = Inr out \<and>
               (\<exists>im. openImage env out = Inr im \<and> pages ! j = page_of im)))"
proof -
  let ?page = "\<lambda>f. page_of (projr (openImage env (projr (compressImage env (buffer f) level))))"
  from fails have ck: "compressImage env (buffer (files ! k)) level = Inr (buffer (files ! k))"
    by (simp add: compressImage_def)
  from opens have all: "\<forall>f \<in> set files. \<exists>im. openImage env (projr (compressImage env (buffer f) level)) = Inr im"
    by (fastforce simp: in_set_conv_nth)
  from k have ne: "files \<noteq> []"
    by auto
  from convert_all_open [OF up ne name lvl all]
  have p: "payload (fst (post_convert env req)) = Pdf (map ?page files) True"
    and st: "statusCode (fst (post_convert env req)) = 200"
    by simp_all
  from opens k ck obtain im where imk: "openImage env (buffer (files ! k)) = Inr im"
    by fastforce
  with k ck have pk: "\<exists>im. openImage env (buffer (files ! k)) = Inr im \<and> map ?page files ! k = page_of im"
    by simp
  have po: "compressImage env (buffer (files ! j)) level = Inr out \<and>
            (\<exists>im. openImage env out = Inr im \<and> map ?page files ! j = page_of im)"
    if j: "j < length files"
      and o: "sharp_jpeg env (buffer (files ! j)) (quality_of level) True = Inr out" for j out
  proof -
    from o have c: "compressImage env (buffer (files ! j)) level = Inr out"
      by (simp add: compressImage_def)
    with opens j obtain im where "openImage env out = Inr im"
      by fastforce
    with c j show ?thesis by simp
  qed
  have len: "length (map ?page files) = length files"
    by simp
  from ck p st len pk po show ?thesis
    by (intro conjI exI [of _ "map ?page files"]) blast+
qed

section \<open>Compression tiers\<close>

text \<open>
  Claim C1. For every compression tier selector the Compression Adapter selects a fixed
  quality: \<^verbatim>\<open>"normal"\<close> selects 90, \<^verbatim>\<open>"compressed"\<close> selects 60, \<^verbatim>\<open>"ultra"\<close> selects 30,
  and any other selector, an omitted one included, selects 90. The adapter calls the
  encoder with exactly that quality, so that for any other selector it behaves as it does
  for \<^verbatim>\<open>"normal"\<close>.
\<close>

theorem quality_by_tier:
  "quality_of (JStr (js ''normal'')) = 90 \<and>
   quality_of (JStr (js ''compressed'')) = 60 \<and>
   quality_of (JStr (js ''ultra'')) = 30 \<and>
   quality_of (default_to Undefined (js ''normal'')) = 90 \<and>
   compressImage env buf (JStr (js ''normal'')) =
     (case sharp_jpeg env buf 90 True of Inr out \<Rightarrow> Inr out | Inl err \<Rightarrow> Inr buf) \<and>
   compressImage env buf (JStr (js ''compressed'')) =
     (case sharp_jpeg env buf 60 True of Inr out \<Rightarrow> Inr out | Inl err \<Rightarrow> Inr buf) \<and>
   compressImage env buf (JStr (js ''ultra'')) =
     (case sharp_jpeg env buf 30 True of Inr out \<Rightarrow> Inr out | Inl err \<Rightarrow> Inr buf) \<and>
   (v \<noteq> JStr (js ''compressed'') \<and> v \<noteq> JStr (js ''ultra'') \<longrightarrow>
      quality_of v = 90 \<and>
      compressImage env buf v =
        (case sharp_jpeg env buf 90 True of Inr out \<Rightarrow> Inr out | Inl err \<Rightarrow> Inr buf) \<and>
      compressImage env buf v = compressImage env buf (JStr (js ''normal'')))"
  by (simp add: quality_of_def default_to_def compressImage_def js_def)

theorem quality_by_tier_witness:
  "quality_of (JStr (js ''fast'')) = 90 \<and> quality_of Undefined = 90 \<and>
   compressImage demo_env [0xFF, 0xD8, 4, 3, 7] (JStr (js ''fast'')) = Inr [0xFF, 0xD8, 4, 3, 90] \<and>
   compressImage demo_env [0xFF, 0xD8, 4, 3, 7] Undefined = Inr [0xFF, 0xD8, 4, 3, 90] \<and>
   compressImage demo_env [0xFF, 0xD8, 4, 3, 7] (JStr (js ''normal'')) = Inr [0xFF, 0xD8, 4, 3, 90] \<and>
   compressImage demo_env [0xFF, 0xD8, 4, 3, 7] (JStr (js ''compressed'')) = Inr [0xFF, 0xD8, 4, 3, 60] \<and>
   compressImage demo_env [0xFF, 0xD8, 4, 3, 7] (JStr (js ''ultra'')) = Inr [0xFF, 0xD8, 4, 3, 30]"
  using quality_by_tier [of demo_env "[0xFF, 0xD8, 4, 3, 7]" "JStr (js ''fast'')"]
        quality_by_tier [of demo_env "[0xFF, 0xD8, 4, 3, 7]" Undefined]
  by (simp add: js_def demo_env_def demo_sharp_def)

section \<open>Filename sanitization\<close>

text \<open>
  Claim C3. For every requested output filename, each code unit outside
  \<^verbatim>\<open>[A-Za-z0-9_-]\<close> is replaced with an underscore, the others are kept in place, and
  \<^verbatim>\<open>.pdf\<close> is appended; the result is the attachment filename of the response's
  Content-Disposition header.
\<close>

theorem filename_chars_replaced:
  "length (sanitizedFilename s) = length s + 4 \<and>
   (\<forall>i<length s. sanitizedFilename s ! i = (if in_class (s ! i) then s ! i else 0x5F)) \<and>
   drop (length s) (sanitizedFilename s) = js ''.pdf'' \<and>
   (upload_array env 0 (images req) = Inr files \<and> files \<noteq> [] \<and> body_filename req = JStr s \<longrightarrow>
      contentDisposition (fst (post_convert env req)) = Some (disposition (sanitizedFilename s)))"
proof -
  have "length (sanitizedFilename s) = length s + 4"
    by (simp add: sanitizedFilename_def sanitize_def js_def)
  moreover have "\<forall>i<length s. sanitizedFilename s ! i = (if in_class (s ! i) then s ! i else 0x5F)"
    by (simp add: sanitizedFilename_def sanitize_def nth_append)
  moreover have "drop (length s) (sanitizedFilename s) = js ''.pdf''"
    by (simp add: sanitizedFilename_def sanitize_def)
  moreover have "upload_array env 0 (images req) = Inr files \<and> files \<noteq> [] \<and> body_filename req = JStr s \<longrightarrow>
      contentDisposition (fst (post_convert env req)) = Some (disposition (sanitizedFilename s))"
    by (simp add: post_convert_def convert_handler_def default_to_def res_json_def Let_def
          split: sum.splits prod.splits query_result.splits)
  ultimately show ?thesis by blast
qed

theorem filename_chars_replaced_witness:
  "upload_array demo_env 0 (images (form Undefined (JStr (js ''My File!@#.pdf'')) [jpeg_a])) = Inr [jpeg_a] \<and>
   sanitizedFilename (js ''My File!@#.pdf'') = js ''My_File____pdf.pdf'' \<and>
   contentDisposition (fst (post_convert demo_env (form Undefined (JStr (js ''My File!@#.pdf'')) [jpeg_a])))
     = Some (js ''attachment; filename='' @ [0x22] @ js ''My_File____pdf.pdf'' @ [0x22])"
  using filename_chars_replaced [where s = "js ''My File!@#.pdf''"
          and req = "form Undefined (JStr (js ''My File!@#.pdf'')) [jpeg_a]"
          and files = "[jpeg_a]" and env = demo_env]
  by (simp add: demo_defs fileFilter_def files_limit_def fileSize_limit_def sanitizedFilename_def
        sanitize_def in_class_def disposition_def js_def)

text \<open>
  Claim C4, as stated: the sanitizer strips the code units outside the class, so that a
  name holding one becomes strictly shorter. It fails on the name \<^verbatim>\<open>a!\<close>, which becomes
  \<^verbatim>\<open>a_\<close>: nothing is removed.
\<close>

theorem strip_counterexample:
  "in_class 0x61 \<and> \<not> in_class 0x21 \<and>
   sanitize [0x61, 0x21] = [0x61, 0x5F] \<and>
   sanitize [0x61, 0x21] \<noteq> filter in_class [0x61, 0x21] \<and>
   \<not> length (sanitize [0x61, 0x21]) < length [0x61 :: code_unit, 0x21]"
  by (simp add: sanitize_def in_class_def)

text \<open>
  Claim C4, amended. A name holding a code unit outside the class is sanitized by
  replacement, not removal: the sanitized name has the length of the input, holds an
  underscore, no longer holds the offending code unit, and is what the handler puts in
  the Content-Disposition header, followed by \<^verbatim>\<open>.pdf\<close>.
\<close>

theorem sanitize_replaces_not_strips:
  assumes "c \<in> set s" and "\<not> in_class c"
  shows "length (sanitize s) = length s \<and> 0x5F \<in> set (sanitize s) \<and>
         c \<notin> set (sanitize s) \<and> sanitize s \<noteq> s \<and>
         (files \<noteq> [] \<longrightarrow>
            contentDisposition (fst (convert_handler env (req\<lparr>body_filename := JStr s\<rparr>) files))
              = Some (js ''attachment; filename='' @ [0x22] @ sanitize s @ js ''.pdf'' @ [0x22]))"
proof -
  have len: "length (sanitize s) = length s"
    by (simp add: sanitize_def)
  from assms have u: "0x5F \<in> set (sanitize s)"
    by (force simp: sanitize_def)
  from assms have gone: "c \<notin> set (sanitize s)"
    by (auto simp: sanitize_def in_class_underscore)
  with assms have diff: "sanitize s \<noteq> s"
    by metis
  have "files \<noteq> [] \<longrightarrow>
            contentDisposition (fst (convert_handler env (req\<lparr>body_filename := JStr s\<rparr>) files))
              = Some (js ''attachment; filename='' @ [0x22] @ sanitize s @ js ''.pdf'' @ [0x22])"
    by (simp add: convert_handler_def default_to_def res_json_def Let_def disposition_def
          sanitizedFilename_def split: sum.splits prod.splits query_result.splits)
  with len u gone diff show ?thesis by blast
qed

theorem sanitize_replaces_not_strips_witness:
  "(0x21 :: code_unit) \<in> set [0x61, 0x21] \<and> \<not> in_class 0x21 \<and>
   length (sanitize [0x61, 0x21]) = 2 \<and> 0x21 \<notin> set (sanitize [0x61, 0x21]) \<and>
   contentDisposition (fst (convert_handler demo_env (form Undefined (JStr [0x61, 0x21]) [jpeg_a]) [jpeg_a]))
     = Some (js ''attachment; filename='' @ [0x22] @ js ''a_.pdf'' @ [0x22])"
  using sanitize_replaces_not_strips [of "0x21" "[0x61, 0x21]" "[jpeg_a]" demo_env
          "form Undefined (JStr [0x61, 0x21]) [jpeg_a]"]
  by (simp add: in_class_def sanitize_def form_def js_def)

text \<open>
  Claim C9. The sanitizer's output stays inside the safe alphabet, has the length of its
  input, and sanitizing twice is sanitizing once.
\<close>

theorem sanitize_closed:
  "(\<forall>c \<in> set (sanitize s). in_class c) \<and> length (sanitize s) = length s \<and>
   sanitize (sanitize s) = sanitize s"
  by (auto simp: sanitize_def in_class_underscore)

theorem sanitize_closed_witness:
  "sanitize (js ''My File!@#.pdf'') = js ''My_File____pdf'' \<and>
   list_all in_class (sanitize (js ''My File!@#.pdf'')) \<and>
   length (sanitize (js ''My File!@#.pdf'')) = length (js ''My File!@#.pdf'') \<and>
   sanitize (sanitize (js ''My File!@#.pdf'')) = sanitize (js ''My File!@#.pdf'')"
  using sanitize_closed [of "js ''My File!@#.pdf''"]
  by (simp add: sanitize_def in_class_def js_def)

text \<open>
  Claim C10. The defaults apply to an absent field only. For a request that passes the
  upload middleware with at least one file and whose \<^verbatim>\<open>filename\<close> field is the empty
  string, the attachment filename is exactly \<^verbatim>\<open>.pdf\<close>, not \<^verbatim>\<open>converted.pdf\<close>; an empty
  \<^verbatim>\<open>compressionLevel\<close> is not replaced by \<^verbatim>\<open>"normal"\<close>, selects quality 90 as an
  unrecognized tier, and is what the audit record holds.
\<close>

theorem empty_fields_not_defaulted:
  assumes "upload_array env 0 (images req) = Inr files" and "files \<noteq> []"
    and "body_filename req = JStr []"
  shows "contentDisposition (fst (post_convert env req))
           = Some (js ''attachment; filename='' @ [0x22] @ js ''.pdf'' @ [0x22]) \<and>
         contentDisposition (fst (post_convert env req))
           \<noteq> Some (js ''attachment; filename='' @ [0x22] @ js ''converted.pdf'' @ [0x22]) \<and>
         default_to (JStr []) (js ''normal'') = JStr [] \<and>
         quality_of (default_to (JStr []) (js ''normal'')) = 90 \<and>
         (body_compressionLevel req = JStr [] \<longrightarrow>
            (\<forall>entry. snd (post_convert env req) = Some entry \<longrightarrow>
               conv_compression_level entry = JStr [] \<and> conv_filename entry = js ''.pdf''))"
proof -
  have d: "contentDisposition (fst (post_convert env req))
           = Some (js ''attachment; filename='' @ [0x22] @ js ''.pdf'' @ [0x22])"
    using assms
    by (simp add: post_convert_def convert_handler_def default_to_def res_json_def Let_def
          disposition_def sanitizedFilename_def sanitize_def
          split: sum.splits prod.splits query_result.splits)
  have n: "contentDisposition (fst (post_convert env req))
           \<noteq> Some (js ''attachment; filename='' @ [0x22] @ js ''converted.pdf'' @ [0x22])"
    unfolding d by (simp add: js_def)
  have q: "default_to (JStr []) (js ''normal'') = JStr [] \<and>
         quality_of (default_to (JStr []) (js ''normal'')) = 90"
    by (simp add: default_to_def quality_of_def js_def)
  have a: "body_compressionLevel req = JStr [] \<longrightarrow>
            (\<forall>entry. snd (post_convert env req) = Some entry \<longrightarrow>
               conv_compression_level entry = JStr [] \<and> conv_filename entry = js ''.pdf'')"
    using assms
    by (auto simp: post_convert_def convert_handler_def default_to_def res_json_def Let_def
          sanitizedFilename_def sanitize_def
          split: sum.splits prod.splits query_result.splits if_splits)
  from d n q a show ?thesis by blast
qed

theorem empty_fields_not_defaulted_witness:
  "upload_array demo_env 0 (images (form (JStr []) (JStr []) [jpeg_a])) = Inr [jpeg_a] \<and>
   contentDisposition (fst (post_convert demo_env (form (JStr []) (JStr []) [jpeg_a])))
     = Some (js ''attachment; filename='' @ [0x22] @ js ''.pdf'' @ [0x22]) \<and>
   map_option conv_compression_level (snd (post_convert demo_env (form (JStr []) (JStr []) [jpeg_a])))
     = Some (JStr []) \<and>
   payload (fst (post_convert demo_env (form (JStr []) (JStr []) [jpeg_a])))
     = Pdf [\<lparr>page_size = (4, 3),
              page_images = [(\<lparr>img_data = [0xFF, 0xD8, 4, 3, 90], img_width = 4, img_height = 3\<rparr>, 0, 0)]\<rparr>] True"
  using empty_fields_not_defaulted [where req = "form (JStr []) (JStr []) [jpeg_a]"
          and files = "[jpeg_a]" and env = demo_env]
  by (simp add: demo_defs route_defs sanitize_def js_def)

section \<open>Upload validation\<close>

text \<open>
  Claim C5 says that a file whose declared media type is not an image is answered with
  status 400. The filter's error is a plain \<^verbatim>\<open>Error\<close>, not a \<^verbatim>\<open>MulterError\<close>, so the
  error-handling middleware answers it with status 500, for every request whose first
  file is declared \<^verbatim>\<open>text/plain\<close>.
\<close>

theorem non_image_gets_500:
  "fst (post_convert env (form level name (text_file # rest)))
     = \<lparr>statusCode = 500, contentType = Some (js ''application/json; charset=utf-8''),
        contentDisposition = None,
        payload = Json (ErrorObj (js ''Only image files are allowed'') None)\<rparr>"
  by (simp add: post_convert_def form_def text_file_def fileFilter_def files_limit_def
        error_middleware_def res_json_def fresh_res_def js_def)

section \<open>Audit store\<close>

text \<open>
  Claim C7, as stated: whenever the audit store is unreachable, the history route answers
  with the empty array. It fails when the store was configured at start-up (the flag is
  set) and the query now reports an error: the route answers with status 500.
\<close>

theorem history_counterexample:
  "supabaseConnected demo_env \<and>
   store_select demo_env = Resolved None (Some (js ''fetch failed'')) \<and>
   statusCode (get_conversions demo_env) = 500 \<and>
   payload (get_conversions demo_env) = Json (ErrorObj (js ''Failed to fetch conversions'') None)"
  by (simp add: get_conversions_def demo_env_def res_json_def fresh_res_def)

text \<open>
  Claim C7, amended. When the connectivity flag is unset the history route answers with
  the empty array and status 200; when the flag is set and the query is rejected or
  reports an error it answers with status 500 and a JSON error. The response of the
  conversion route does not depend on the flag or on what the store does.
\<close>

theorem audit_store_never_blocks:
  "payload (get_conversions (env\<lparr>supabaseConnected := False\<rparr>)) = Json (RowArray []) \<and>
   statusCode (get_conversions (env\<lparr>supabaseConnected := False\<rparr>)) = 200 \<and>
   fst (post_convert (env\<lparr>supabaseConnected := flag, store_insert := ins, store_select := sel\<rparr>) req)
     = fst (post_convert env req) \<and>
   (supabaseConnected env \<and> (store_select env = Rejected e \<or> store_select env = Resolved d (Some e)) \<longrightarrow>
      statusCode (get_conversions env) = 500 \<and>
      payload (get_conversions env) = Json (ErrorObj (js ''Failed to fetch conversions'') None))"
proof -
  have pf: "process_files (env\<lparr>supabaseConnected := flag, store_insert := ins, store_select := sel\<rparr>) l i fs st
            = process_files env l i fs st" for l i fs st
    by (rule process_files_cong) simp_all
  have ua: "upload_array (env\<lparr>supabaseConnected := flag, store_insert := ins, store_select := sel\<rparr>) n fs
            = upload_array env n fs" for n fs
    by (rule upload_array_cong) simp
  have "fst (post_convert (env\<lparr>supabaseConnected := flag, store_insert := ins, store_select := sel\<rparr>) req)
     = fst (post_convert env req)"
    by (simp add: post_convert_def convert_handler_def pf ua Let_def
          split: sum.splits prod.splits query_result.splits jsval.splits)
  then show ?thesis
    by (auto simp: get_conversions_def res_json_def fresh_res_def)
qed

theorem audit_store_never_blocks_witness:
  "payload (get_conversions (demo_env\<lparr>supabaseConnected := False\<rparr>)) = Json (RowArray []) \<and>
   supabaseConnected demo_env \<and> statusCode (get_conversions demo_env) = 500 \<and>
   fst (post_convert (demo_env\<lparr>supabaseConnected := False, store_insert := (\<lambda>entry. Rejected []),
                                store_select := Rejected []\<rparr>) (form Undefined Undefined [jpeg_a]))
     = fst (post_convert demo_env (form Undefined Undefined [jpeg_a]))"
  using audit_store_never_blocks [where env = demo_env and flag = False
          and ins = "\<lambda>entry. Rejected []" and sel = "Rejected []"
          and req = "form Undefined Undefined [jpeg_a]" and e = "js ''fetch failed''" and d = None]
  by (simp add: demo_env_def)

section \<open>Conversion pipeline\<close>

text \<open>
  Claim C2, as stated: whenever processing fails the caller receives a JSON error body and
  no PDF bytes, and the PDF is sent only once every file has been processed. It fails on
  a request of three files of which the third cannot be opened by the PDF writer: the
  handler has piped the document into the response before the loop, so when the exception
  arrives the response has gone out with status 200 and type \<^verbatim>\<open>application/pdf\<close>, the
  caller holds the first page, and the guard \<^verbatim>\<open>!res.headersSent\<close> sends no JSON body.
\<close>

theorem partial_pdf_counterexample:
  "upload_array demo_env 0 (images (form Undefined Undefined [jpeg_a, jpeg_b, png_garbage]))
     = Inr [jpeg_a, jpeg_b, png_garbage] \<and>
   fst (post_convert demo_env (form Undefined Undefined [jpeg_a, jpeg_b, png_garbage]))
     = \<lparr>statusCode = 200, contentType = Some (js ''application/pdf''),
        contentDisposition = Some (js ''attachment; filename='' @ [0x22] @ js ''converted.pdf'' @ [0x22]),
        payload = Pdf [\<lparr>page_size = (4, 3),
                 page_images = [(\<lparr>img_data = [0xFF, 0xD8, 4, 3, 90], img_width = 4, img_height = 3\<rparr>, 0, 0)]\<rparr>] False\<rparr>"
  by (simp add: demo_defs route_defs sanitize_def in_class_def js_def)

text \<open>
  Claim C2, amended. Each ending of a request to the conversion route follows from its
  cause. An upload the middleware refuses, an upload without files, and a filename field
  that is not a string give a JSON body with an \<^verbatim>\<open>error\<close> field, status 400 or 500, and
  no PDF bytes. An exception in the loop while the headers are unsent gives status 500
  and the JSON body with the exception's message. An exception in the loop after piped
  output has reached the response gives no JSON body: the response keeps status 200 and
  type \<^verbatim>\<open>application/pdf\<close>, holds the pages written before the page added last, and is
  never finalized. A loop that ends without exception gives status 200 and the finalized
  document with one page per file. So every request ends in one of three ways: a JSON
  error, a partial PDF of fewer pages than files, or the finalized PDF.
\<close>

theorem convert_response_shape:
  "(upload_array env 0 (images req) = Inl err \<longrightarrow>
      fst (post_convert env req) = error_middleware err \<and>
      (\<exists>e. payload (fst (post_convert env req)) = Json (ErrorObj e None)) \<and>
      (statusCode (fst (post_convert env req)) = 400 \<or> statusCode (fst (post_convert env req)) = 500)) \<and>
   (upload_array env 0 (images req) = Inr [] \<longrightarrow>
      payload (fst (post_convert env req)) = Json (ErrorObj (js ''No images provided'') None) \<and>
      statusCode (fst (post_convert env req)) = 400) \<and>
   (upload_array env 0 (images req) = Inr files \<and> files \<noteq> [] \<and> body_filename req = JOther \<longrightarrow>
      (\<exists>m. payload (fst (post_convert env req)) = Json (ErrorObj (js ''Conversion failed'') (Some m))) \<and>
      statusCode (fst (post_convert env req)) = 500) \<and>
   (upload_array env 0 (images req) = Inr files \<and> files \<noteq> [] \<and> body_filename req \<noteq> JOther \<and>
    process_files env (default_to (body_compressionLevel req) (js ''normal'')) 0 files ([], False)
      = Inl (msg, added, False) \<longrightarrow>
      payload (fst (post_convert env req)) = Json (ErrorObj (js ''Conversion failed'') (Some msg)) \<and>
      statusCode (fst (post_convert env req)) = 500) \<and>
   (upload_array env 0 (images req) = Inr files \<and> files \<noteq> [] \<and> body_filename req \<noteq> JOther \<and>
    process_files env (default_to (body_compressionLevel req) (js ''normal'')) 0 files ([], False)
      = Inl (msg, added, True) \<longrightarrow>
      payload (fst (post_convert env req)) = Pdf (butlast added) False \<and>
      statusCode (fst (post_convert env req)) = 200 \<and>
      contentType (fst (post_convert env req)) = Some (js ''application/pdf'') \<and>
      length added < length files \<and> (\<exists>i. drained env i)) \<and>
   (upload_array env 0 (images req) = Inr files \<and> files \<noteq> [] \<and> body_filename req \<noteq> JOther \<and>
    process_files env (default_to (body_compressionLevel req) (js ''normal'')) 0 files ([], False)
      = Inr (added, sent) \<longrightarrow>
      payload (fst (post_convert env req)) = Pdf added True \<and>
      statusCode (fst (post_convert env req)) = 200 \<and>
      contentType (fst (post_convert env req)) = Some (js ''application/pdf'') \<and>
      length added = length files) \<and>
   ((\<exists>e m. payload (fst (post_convert env req)) = Json (ErrorObj e m) \<and>
          (statusCode (fst (post_convert env req)) = 400 \<or> statusCode (fst (post_convert env req)) = 500)) \<or>
    (\<exists>pages. payload (fst (post_convert env req)) = Pdf pages False \<and>
          statusCode (fst (post_convert env req)) = 200 \<and>
          length pages < length (images req) \<and> (\<exists>i. drained env i)) \<or>
    (\<exists>pages. payload (fst (post_convert env req)) = Pdf pages True \<and>
          statusCode (fst (post_convert env req)) = 200 \<and>
          length pages = length (images req) \<and> images req \<noteq> [] \<and>
          upload_array env 0 (images req) = Inr (images req)))"
  (is "?refused \<and> ?nofiles \<and> ?badname \<and> ?unsent \<and> ?sent \<and> ?finished \<and> ?three")
proof -
  let ?level = "default_to (body_compressionLevel req) (js ''normal'')"
  have name: "\<exists>s. default_to (body_filename req) (js ''converted'') = JStr s"
    if "body_filename req \<noteq> JOther"
    using that by (cases "body_filename req") (simp_all add: default_to_def)
  have refused: ?refused
    by (simp add: post_convert_def error_middleware_def res_json_def fresh_res_def
          split: js_error.splits)
  have nofiles: ?nofiles
    by (simp add: post_convert_def convert_handler_def res_json_def fresh_res_def Let_def)
  have badname: ?badname
    by (simp add: post_convert_def convert_handler_def default_to_def res_json_def
          fresh_res_def Let_def)
  have unsent: ?unsent
  proof (intro impI, elim conjE)
    assume "upload_array env 0 (images req) = Inr files" "files \<noteq> []"
      "body_filename req \<noteq> JOther"
      "process_files env ?level 0 files ([], False) = Inl (msg, added, False)"
    with name show "payload (fst (post_convert env req))
              = Json (ErrorObj (js ''Conversion failed'') (Some msg)) \<and>
            statusCode (fst (post_convert env req)) = 500"
      by (auto simp: post_convert_def convert_handler_def res_json_def fresh_res_def Let_def)
  qed
  have sent: ?sent
  proof (intro impI, elim conjE)
    assume a: "upload_array env 0 (images req) = Inr files" "files \<noteq> []"
      "body_filename req \<noteq> JOther"
      and p: "process_files env ?level 0 files ([], False) = Inl (msg, added, True)"
    from process_files_partial [OF p]
    have "length added < length files" "\<exists>i. drained env i"
      by simp_all
    with a p name show "payload (fst (post_convert env req)) = Pdf (butlast added) False \<and>
        statusCode (fst (post_convert env req)) = 200 \<and>
        contentType (fst (post_convert env req)) = Some (js ''application/pdf'') \<and>
        length added < length files \<and> (\<exists>i. drained env i)"
      by (auto simp: post_convert_def convert_handler_def fresh_res_def Let_def)
  qed
  have finished: ?finished
  proof (intro impI, elim conjE)
    assume a: "upload_array env 0 (images req) = Inr files" "files \<noteq> []"
      "body_filename req \<noteq> JOther"
      and p: "process_files env ?level 0 files ([], False) = Inr (added, sent)"
    from process_files_length [OF p]
    have "length added = length files"
      by simp
    with a p name show "payload (fst (post_convert env req)) = Pdf added True \<and>
        statusCode (fst (post_convert env req)) = 200 \<and>
        contentType (fst (post_convert env req)) = Some (js ''application/pdf'') \<and>
        length added = length files"
      by (auto simp: post_convert_def convert_handler_def fresh_res_def Let_def
            split: query_result.splits)
  qed
  have three: ?three
  proof (cases "upload_array env 0 (images req)")
    case (Inl e)
    then show ?thesis
      by (simp add: post_convert_def error_middleware_def res_json_def fresh_res_def
            split: js_error.splits)
  next
    case (Inr fs)
    note up = this
    then have fs: "fs = images req"
      by (rule upload_array_same)
    show ?thesis
    proof (cases "fs = [] \<or> body_filename req = JOther")
      case True
      with up show ?thesis
        by (auto simp: post_convert_def convert_handler_def default_to_def res_json_def
              fresh_res_def Let_def)
    next
      case False
      then have ne: "fs \<noteq> []" and nm: "body_filename req \<noteq> JOther"
        by simp_all
      from name [OF nm] obtain s where
        s: "default_to (body_filename req) (js ''converted'') = JStr s" ..
      show ?thesis
      proof (cases "process_files env ?level 0 fs ([], False)")
        case (Inl failure)
        obtain m pages snt where f: "failure = (m, pages, snt)"
          by (cases failure)
        from process_files_partial [OF Inl [unfolded f]]
        have "length pages < length fs" and "snt \<longrightarrow> (\<exists>j. drained env j)"
          by simp_all
        with up Inl f ne s fs show ?thesis
          by (auto simp: post_convert_def convert_handler_def res_json_def fresh_res_def Let_def)
      next
        case (Inr fin)
        obtain pages snt where d: "fin = (pages, snt)"
          by (cases fin)
        from process_files_length [OF Inr [unfolded d]]
        have "length pages = length fs"
          by simp
        with up Inr d ne s fs show ?thesis
          by (simp add: post_convert_def convert_handler_def res_json_def fresh_res_def Let_def
                split: query_result.splits)
      qed
    qed
  qed
  from refused nofiles badname unsent sent finished three show ?thesis
    by (intro conjI)
qed

theorem convert_response_shape_witness:
  "upload_array demo_env 0 (images (form Undefined Undefined [jpeg_b, jpeg_a, png_garbage]))
     = Inr [jpeg_b, jpeg_a, png_garbage] \<and>
   process_files demo_env (JStr (js ''normal'')) 0 [jpeg_b, jpeg_a, png_garbage] ([], False)
     = Inl (js ''Unknown image format.'',
            [\<lparr>page_size = (2, 5),
               page_images = [(\<lparr>img_data = [0xFF, 0xD8, 2, 5, 90], img_width = 2, img_height = 5\<rparr>, 0, 0)]\<rparr>,
             \<lparr>page_size = (4, 3),
               page_images = [(\<lparr>img_data = [0xFF, 0xD8, 4, 3, 90], img_width = 4, img_height = 3\<rparr>, 0, 0)]\<rparr>],
            True) \<and>
   payload (fst (post_convert demo_env (form Undefined Undefined [jpeg_b, jpeg_a, png_garbage])))
     = Pdf [\<lparr>page_size = (2, 5),
              page_images = [(\<lparr>img_data = [0xFF, 0xD8, 2, 5, 90], img_width = 2, img_height = 5\<rparr>, 0, 0)]\<rparr>] False \<and>
   statusCode (fst (post_convert demo_env (form Undefined Undefined [jpeg_b, jpeg_a, png_garbage]))) = 200 \<and>
   contentType (fst (post_convert demo_env (form Undefined Undefined [jpeg_b, jpeg_a, png_garbage])))
     = Some (js ''application/pdf'') \<and>
   upload_array demo_env 0 (images (form Undefined Undefined [])) = Inr [] \<and>
   payload (fst (post_convert demo_env (form Undefined Undefined [])))
     = Json (ErrorObj (js ''No images provided'') None) \<and>
   statusCode (fst (post_convert demo_env (form Undefined Undefined []))) = 400 \<and>
   process_files demo_env (JStr (js ''normal'')) 0 [jpeg_b] ([], False)
     = Inr ([\<lparr>page_size = (2, 5),
               page_images = [(\<lparr>img_data = [0xFF, 0xD8, 2, 5, 90], img_width = 2, img_height = 5\<rparr>, 0, 0)]\<rparr>],
            True) \<and>
   payload (fst (post_convert demo_env (form Undefined Undefined [jpeg_b])))
     = Pdf [\<lparr>page_size = (2, 5),
              page_images = [(\<lparr>img_data = [0xFF, 0xD8, 2, 5, 90], img_width = 2, img_height = 5\<rparr>, 0, 0)]\<rparr>] True \<and>
   statusCode (fst (post_convert demo_env (form Undefined Undefined [jpeg_b]))) = 200"
proof -
  let ?pb = "\<lparr>page_size = (2, 5),
               page_images = [(\<lparr>img_data = [0xFF, 0xD8, 2, 5, 90], img_width = 2, img_height = 5\<rparr>, 0::nat, 0::nat)]\<rparr>"
  let ?pa = "\<lparr>page_size = (4, 3),
               page_images = [(\<lparr>img_data = [0xFF, 0xD8, 4, 3, 90], img_width = 4, img_height = 3\<rparr>, 0::nat, 0::nat)]\<rparr>"
  let ?three = "form Undefined Undefined [jpeg_b, jpeg_a, png_garbage]"
  let ?none = "form Undefined Undefined []"
  let ?one = "form Undefined Undefined [jpeg_b]"
  have lvl: "default_to (body_compressionLevel (form Undefined Undefined fs)) (js ''normal'')
               = JStr (js ''normal'')" for fs
    by (simp add: form_def default_to_def)
  have nm: "body_filename (form Undefined Undefined fs) \<noteq> JOther" for fs
    by (simp add: form_def)
  have up3: "upload_array demo_env 0 (images ?three) = Inr [jpeg_b, jpeg_a, png_garbage]"
    by (simp add: demo_defs fileFilter_def files_limit_def fileSize_limit_def js_def)
  have pf3: "process_files demo_env (JStr (js ''normal'')) 0 [jpeg_b, jpeg_a, png_garbage] ([], False)
               = Inl (js ''Unknown image format.'', [?pb, ?pa], True)"
    by (simp add: demo_defs compressImage_def quality_of_def page_of_def js_def)
  from convert_response_shape [where env = demo_env and req = ?three
         and files = "[jpeg_b, jpeg_a, png_garbage]" and msg = "js ''Unknown image format.''"
         and added = "[?pb, ?pa]"] up3 pf3 nm [of "[jpeg_b, jpeg_a, png_garbage]"]
  have r3: "payload (fst (post_convert demo_env ?three)) = Pdf (butlast [?pb, ?pa]) False \<and>
            statusCode (fst (post_convert demo_env ?three)) = 200 \<and>
            contentType (fst (post_convert demo_env ?three)) = Some (js ''application/pdf'')"
    unfolding lvl by blast
  have up0: "upload_array demo_env 0 (images ?none) = Inr []"
    by (simp add: form_def)
  from convert_response_shape [where env = demo_env and req = ?none] up0
  have r0: "payload (fst (post_convert demo_env ?none)) = Json (ErrorObj (js ''No images provided'') None) \<and>
            statusCode (fst (post_convert demo_env ?none)) = 400"
    by blast
  have up1: "upload_array demo_env 0 (images ?one) = Inr [jpeg_b]"
    by (simp add: demo_defs fileFilter_def files_limit_def fileSize_limit_def js_def)
  have pf1: "process_files demo_env (JStr (js ''normal'')) 0 [jpeg_b] ([], False) = Inr ([?pb], True)"
    by (simp add: demo_defs compressImage_def quality_of_def page_of_def js_def)
  from convert_response_shape [where env = demo_env and req = ?one and files = "[jpeg_b]"
         and added = "[?pb]" and sent = True] up1 pf1 nm [of "[jpeg_b]"]
  have r1: "payload (fst (post_convert demo_env ?one)) = Pdf [?pb] True \<and>
            statusCode (fst (post_convert demo_env ?one)) = 200"
    unfolding lvl by blast
  from up3 pf3 r3 up0 r0 pf1 r1 show ?thesis
    by simp
qed

text \<open>
  Claim C6, as stated: when re-encoding fails for one file among several, the other files
  are compressed normally and the request succeeds. It fails on a request whose first
  file is declared \<^verbatim>\<open>image/png\<close> but holds bytes neither the encoder nor the PDF writer
  accepts: the adapter returns the original buffer, \<^verbatim>\<open>doc.openImage\<close> throws on it, and
  the request ends without a page and without reaching the second file.
\<close>

theorem fallback_counterexample:
  "sharp_jpeg demo_env (buffer png_garbage) (quality_of (JStr (js ''normal''))) True
     = Inl (js ''Input buffer contains unsupported image format'') \<and>
   compressImage demo_env (buffer png_garbage) (JStr (js ''normal'')) = Inr (buffer png_garbage) \<and>
   upload_array demo_env 0 (images (form (JStr (js ''normal'')) (JStr (js ''scan'')) [png_garbage, jpeg_b]))
     = Inr [png_garbage, jpeg_b] \<and>
   statusCode (fst (post_convert demo_env (form (JStr (js ''normal'')) (JStr (js ''scan'')) [png_garbage, jpeg_b])))
     = 200 \<and>
   payload (fst (post_convert demo_env (form (JStr (js ''normal'')) (JStr (js ''scan'')) [png_garbage, jpeg_b])))
     = Pdf [] False"
  by (simp add: demo_defs route_defs sanitize_def in_class_def js_def)

text \<open>
  Claim C6, amended. The adapter never propagates a failure, and returns the buffer it
  was given when re-encoding fails. When that happens for file \<open>k\<close> of an accepted
  upload whose filename field is absent or a string, and the PDF writer opens every buffer
  the adapter returns (for file \<open>k\<close>, its original bytes), then the request succeeds with
  one page per file: page \<open>k\<close> shows the original bytes of file \<open>k\<close>, and every file
  whose re-encoding succeeds is compressed as usual and its page shows the re-encoded
  image.
\<close>

theorem compression_failure_falls_back:
  "(\<exists>out. compressImage env buf tier = Inr out) \<and>
   (sharp_jpeg env buf (quality_of tier) True = Inl e \<longrightarrow> compressImage env buf tier = Inr buf) \<and>
   (upload_array env 0 (images req) = Inr files \<and> body_filename req \<noteq> JOther \<and>
    level = default_to (body_compressionLevel req) (js ''normal'') \<and> k < length files \<and>
    sharp_jpeg env (buffer (files ! k)) (quality_of level) True = Inl err \<and>
    (\<forall>j<length files. \<exists>out im.
       compressImage env (buffer (files ! j)) level = Inr out \<and> openImage env out = Inr im) \<longrightarrow>
    compressImage env (buffer (files ! k)) level = Inr (buffer (files ! k)) \<and>
    (\<exists>pages. payload (fst (post_convert env req)) = Pdf pages True \<and>
       statusCode (fst (post_convert env req)) = 200 \<and>
       length pages = length files \<and>
       (\<exists>im. openImage env (buffer (files ! k)) = Inr im \<and> pages ! k = page_of im) \<and>
       (\<forall>j<length files. \<forall>out.
          sharp_jpeg env (buffer (files ! j)) (quality_of level) True = Inr out \<longrightarrow>
          compressImage env (buffer (files ! j)) level = Inr out \<and>
          (\<exists>im. openImage env out = Inr im \<and> pages ! j = page_of im))))"
proof (intro conjI impI)
  show "\<exists>out. compressImage env buf tier = Inr out"
    by (rule compressImage_Inr)
next
  assume "sharp_jpeg env buf (quality_of tier) True = Inl e"
  then show "compressImage env buf tier = Inr buf"
    by (simp add: compressImage_def)
next
  assume h: "upload_array env 0 (images req) = Inr files \<and> body_filename req \<noteq> JOther \<and>
    level = default_to (body_compressionLevel req) (js ''normal'') \<and> k < length files \<and>
    sharp_jpeg env (buffer (files ! k)) (quality_of level) True = Inl err \<and>
    (\<forall>j<length files. \<exists>out im.
       compressImage env (buffer (files ! j)) level = Inr out \<and> openImage env out = Inr im)"
  then have r: "compressImage env (buffer (files ! k)) level = Inr (buffer (files ! k)) \<and>
    (\<exists>pages. payload (fst (post_convert env req)) = Pdf pages True \<and>
       statusCode (fst (post_convert env req)) = 200 \<and>
       length pages = length files \<and>
       (\<exists>im. openImage env (buffer (files ! k)) = Inr im \<and> pages ! k = page_of im) \<and>
       (\<forall>j<length files. \<forall>out.
          sharp_jpeg env (buffer (files ! j)) (quality_of level) True = Inr out \<longrightarrow>
          compressImage env (buffer (files ! j)) level = Inr out \<and>
          (\<exists>im. openImage env out = Inr im \<and> pages ! j = page_of im)))"
    by (intro fallback_pages [where err = err and req = req]) blast+
  from r show "compressImage env (buffer (files ! k)) level = Inr (buffer (files ! k))" ..
  from r show "\<exists>pages. payload (fst (post_convert env req)) = Pdf pages True \<and>
       statusCode (fst (post_convert env req)) = 200 \<and>
       length pages = length files \<and>
       (\<exists>im. openImage env (buffer (files ! k)) = Inr im \<and> pages ! k = page_of im) \<and>
       (\<forall>j<length files. \<forall>out.
          sharp_jpeg env (buffer (files ! j)) (quality_of level) True = Inr out \<longrightarrow>
          compressImage env (buffer (files ! j)) level = Inr out \<and>
          (\<exists>im. openImage env out = Inr im \<and> pages ! j = page_of im))" ..
qed

theorem compression_failure_falls_back_witness:
  "upload_array demo_env 0 (images (form Undefined Undefined [jpeg_a, jpeg_truncated])) = Inr [jpeg_a, jpeg_truncated] \<and>
   sharp_jpeg demo_env (buffer jpeg_truncated) 90 True
     = Inl (js ''Input buffer contains unsupported image format'') \<and>
   compressImage demo_env (buffer jpeg_truncated) (JStr (js ''normal'')) = Inr [0xFF, 0xD8, 6, 8] \<and>
   openImage demo_env [0xFF, 0xD8, 6, 8]
     = Inr \<lparr>img_data = [0xFF, 0xD8, 6, 8], img_width = 6, img_height = 8\<rparr> \<and>
   compressImage demo_env (buffer jpeg_a) (JStr (js ''normal'')) = Inr [0xFF, 0xD8, 4, 3, 90] \<and>
   openImage demo_env [0xFF, 0xD8, 4, 3, 90]
     = Inr \<lparr>img_data = [0xFF, 0xD8, 4, 3, 90], img_width = 4, img_height = 3\<rparr> \<and>
   payload (fst (post_convert demo_env (form Undefined Undefined [jpeg_a, jpeg_truncated])))
     = Pdf [\<lparr>page_size = (4, 3),
              page_images = [(\<lparr>img_data = [0xFF, 0xD8, 4, 3, 90], img_width = 4, img_height = 3\<rparr>, 0, 0)]\<rparr>,
            \<lparr>page_size = (6, 8),
              page_images = [(\<lparr>img_data = [0xFF, 0xD8, 6, 8], img_width = 6, img_height = 8\<rparr>, 0, 0)]\<rparr>] True"
  using compression_failure_falls_back [where req = "form Undefined Undefined [jpeg_a, jpeg_truncated]"
          and files = "[jpeg_a, jpeg_truncated]" and env = demo_env and k = 1
          and level = "JStr (js ''normal'')"
          and err = "js ''Input buffer contains unsupported image format''"
          and buf = "buffer jpeg_truncated" and tier = "JStr (js ''normal'')"
          and e = "js ''Input buffer contains unsupported image format''"]
  by (simp add: demo_defs jpeg_truncated_def route_defs sanitize_def in_class_def js_def)




end
